theory Spec2Isabelle
  imports Main "HOL-Library.Word"
begin

section \<open>Go values used by package messages\<close>

type_synonym uint32 = "32 word"
type_synonym uint64 = "64 word"

text \<open>
  A Go byte slice is either \<^verbatim>\<open>nil\<close> (\<open>None\<close>) or a sequence of bytes. The generated
  getters return \<^verbatim>\<open>nil\<close> for a nil receiver, so the two are kept apart.
\<close>

type_synonym bytes = "8 word list option"

text \<open>
  A panic is a value. \<open>NilDereference\<close> is the run-time panic of a field access through a
  nil pointer, \<open>PanicString\<close> is \<^verbatim>\<open>panic("...")\<close>, and \<open>PanicError\<close> is \<^verbatim>\<open>panic(err)\<close>
  with the error returned by the serializer.
\<close>

datatype 'e panic = NilDereference | PanicString string | PanicError 'e

section \<open>The message structs\<close>

text \<open>
  Modelled from the spec: the struct declarations and getters that the protocol-buffer
  compiler generates (messages.pb.go) are not among the source files. The fields are
  the ones that messages.go reads and writes (\<^verbatim>\<open>Msg\<close>, \<^verbatim>\<open>Signature\<close>, \<^verbatim>\<open>ReplicaUi\<close>,
  \<^verbatim>\<open>View\<close>, \<^verbatim>\<open>ReplicaId\<close>, \<^verbatim>\<open>PrimaryId\<close>, \<^verbatim>\<open>Request\<close>, \<^verbatim>\<open>PrimaryUi\<close>, \<^verbatim>\<open>ClientId\<close>, \<^verbatim>\<open>Type\<close>),
  completed from the data model of the specification (Request: client id, operation,
  client-assigned timestamp, signature; Reply: client id, result, signature). Every field
  name carries the name of its struct, since a record field is a global constant.
  A pointer to a struct is an \<open>option\<close>: \<open>None\<close> is the nil pointer.
\<close>

record request_m =
  Request_M_ClientId :: uint32
  Request_M_Timestamp :: uint64
  Request_M_Operation :: bytes

record request =
  Request_Msg :: "request_m option"
  Request_Signature :: bytes

record reply_m =
  Reply_M_ClientId :: uint32
  Reply_M_Result :: bytes

record reply =
  Reply_Msg :: "reply_m option"
  Reply_Signature :: bytes

record prepare_m =
  Prepare_M_View :: uint64
  Prepare_M_ReplicaId :: uint32
  Prepare_M_Request :: "request option"

record prepare =
  Prepare_Msg :: "prepare_m option"
  Prepare_ReplicaUi :: bytes

record commit_m =
  Commit_M_View :: uint64
  Commit_M_ReplicaId :: uint32
  Commit_M_PrimaryId :: uint32
  Commit_M_Request :: "request option"
  Commit_M_PrimaryUi :: bytes

record commit =
  Commit_Msg :: "commit_m option"
  Commit_ReplicaUi :: bytes

text \<open>
  The envelope. \<^verbatim>\<open>Message.Type\<close> is an interface value: unset (\<open>Type_nil\<close>), or a pointer
  to one of the four wrapper structs, each of which holds a pointer to a concrete message.
\<close>

record message_request =
  Message_Request_Request :: "request option"

record message_reply =
  Message_Reply_Reply :: "reply option"

record message_prepare =
  Message_Prepare_Prepare :: "prepare option"

record message_commit =
  Message_Commit_Commit :: "commit option"

datatype isMessage_Type =
    Type_nil
  | Ptr_Message_Request "message_request option"
  | Ptr_Message_Reply "message_reply option"
  | Ptr_Message_Prepare "message_prepare option"
  | Ptr_Message_Commit "message_commit option"

record message =
  Message_Type :: isMessage_Type

text \<open>
  A value of the empty interface \<^verbatim>\<open>interface{}\<close>, as far as the type switch of
  \<^verbatim>\<open>WrapMessage\<close> tells values apart: the nil interface, a pointer (possibly nil) of one
  of the four message types, or a value of any other dynamic type \<open>'o\<close>.
\<close>

datatype 'o any =
    Nil_interface
  | Ptr_Request "request option"
  | Ptr_Reply "reply option"
  | Ptr_Prepare "prepare option"
  | Ptr_Commit "commit option"
  | Other 'o

subsection \<open>Generated getters\<close>

text \<open>
  Modelled from the spec: the getters of messages.pb.go. A generated getter returns the
  field, and the zero value of the field's type when the receiver is nil.
\<close>

definition Request_GetMsg :: "request option \<Rightarrow> request_m option" where
  "Request_GetMsg m = (case m of None \<Rightarrow> None | Some r \<Rightarrow> Request_Msg r)"

definition Request_GetSignature :: "request option \<Rightarrow> bytes" where
  "Request_GetSignature m = (case m of None \<Rightarrow> None | Some r \<Rightarrow> Request_Signature r)"

definition Request_M_GetClientId :: "request_m option \<Rightarrow> uint32" where
  "Request_M_GetClientId m = (case m of None \<Rightarrow> 0 | Some r \<Rightarrow> Request_M_ClientId r)"

definition Reply_GetMsg :: "reply option \<Rightarrow> reply_m option" where
  "Reply_GetMsg m = (case m of None \<Rightarrow> None | Some r \<Rightarrow> Reply_Msg r)"

definition Reply_GetSignature :: "reply option \<Rightarrow> bytes" where
  "Reply_GetSignature m = (case m of None \<Rightarrow> None | Some r \<Rightarrow> Reply_Signature r)"

definition Prepare_GetMsg :: "prepare option \<Rightarrow> prepare_m option" where
  "Prepare_GetMsg m = (case m of None \<Rightarrow> None | Some p \<Rightarrow> Prepare_Msg p)"

definition Prepare_GetReplicaUi :: "prepare option \<Rightarrow> bytes" where
  "Prepare_GetReplicaUi m = (case m of None \<Rightarrow> None | Some p \<Rightarrow> Prepare_ReplicaUi p)"

definition Prepare_M_GetView :: "prepare_m option \<Rightarrow> uint64" where
  "Prepare_M_GetView m = (case m of None \<Rightarrow> 0 | Some p \<Rightarrow> Prepare_M_View p)"

definition Prepare_M_GetReplicaId :: "prepare_m option \<Rightarrow> uint32" where
  "Prepare_M_GetReplicaId m = (case m of None \<Rightarrow> 0 | Some p \<Rightarrow> Prepare_M_ReplicaId p)"

definition Prepare_M_GetRequest :: "prepare_m option \<Rightarrow> request option" where
  "Prepare_M_GetRequest m = (case m of None \<Rightarrow> None | Some p \<Rightarrow> Prepare_M_Request p)"

definition Commit_GetMsg :: "commit option \<Rightarrow> commit_m option" where
  "Commit_GetMsg m = (case m of None \<Rightarrow> None | Some c \<Rightarrow> Commit_Msg c)"

definition Commit_GetReplicaUi :: "commit option \<Rightarrow> bytes" where
  "Commit_GetReplicaUi m = (case m of None \<Rightarrow> None | Some c \<Rightarrow> Commit_ReplicaUi c)"

definition Commit_M_GetView :: "commit_m option \<Rightarrow> uint64" where
  "Commit_M_GetView m = (case m of None \<Rightarrow> 0 | Some c \<Rightarrow> Commit_M_View c)"

definition Commit_M_GetReplicaId :: "commit_m option \<Rightarrow> uint32" where
  "Commit_M_GetReplicaId m = (case m of None \<Rightarrow> 0 | Some c \<Rightarrow> Commit_M_ReplicaId c)"

definition Commit_M_GetPrimaryId :: "commit_m option \<Rightarrow> uint32" where
  "Commit_M_GetPrimaryId m = (case m of None \<Rightarrow> 0 | Some c \<Rightarrow> Commit_M_PrimaryId c)"

definition Commit_M_GetRequest :: "commit_m option \<Rightarrow> request option" where
  "Commit_M_GetRequest m = (case m of None \<Rightarrow> None | Some c \<Rightarrow> Commit_M_Request c)"

definition Commit_M_GetPrimaryUi :: "commit_m option \<Rightarrow> bytes" where
  "Commit_M_GetPrimaryUi m = (case m of None \<Rightarrow> None | Some c \<Rightarrow> Commit_M_PrimaryUi c)"

section \<open>messages.go\<close>

text \<open>
  \<^verbatim>\<open>proto.Marshal\<close> belongs to the protocol-buffer library, not to this repository. Each
  \<open>Payload\<close> takes it as the parameter \<open>marshal\<close>, which returns an error (\<open>Inl\<close>) or the
  bytes (\<open>Inr\<close>). A method with a pointer receiver that assigns to a field returns the
  updated struct; assigning through a nil receiver panics.
\<close>

subsection \<open>Request\<close>

definition Request_ClientID :: "request option \<Rightarrow> uint32" where
  "Request_ClientID m = Request_M_GetClientId (Request_GetMsg m)"

definition Request_Payload ::
    "(request_m option \<Rightarrow> 'e + bytes) \<Rightarrow> request option \<Rightarrow> 'e panic + bytes" where
  "Request_Payload marshal m =
     (case marshal (Request_GetMsg m) of
        Inl err \<Rightarrow> Inl (PanicError err)
      | Inr mBytes \<Rightarrow> Inr mBytes)"

definition Request_SignatureBytes :: "request option \<Rightarrow> bytes" where
  "Request_SignatureBytes m = Request_GetSignature m"

definition Request_AttachSignature :: "request option \<Rightarrow> bytes \<Rightarrow> 'e panic + request" where
  "Request_AttachSignature m signature =
     (case m of
        None \<Rightarrow> Inl NilDereference
      | Some r \<Rightarrow> Inr (r\<lparr>Request_Signature := signature\<rparr>))"

subsection \<open>Reply\<close>

definition Reply_Payload ::
    "(reply_m option \<Rightarrow> 'e + bytes) \<Rightarrow> reply option \<Rightarrow> 'e panic + bytes" where
  "Reply_Payload marshal m =
     (case marshal (Reply_GetMsg m) of
        Inl err \<Rightarrow> Inl (PanicError err)
      | Inr mBytes \<Rightarrow> Inr mBytes)"

definition Reply_SignatureBytes :: "reply option \<Rightarrow> bytes" where
  "Reply_SignatureBytes m = Reply_GetSignature m"

definition Reply_AttachSignature :: "reply option \<Rightarrow> bytes \<Rightarrow> 'e panic + reply" where
  "Reply_AttachSignature m signature =
     (case m of
        None \<Rightarrow> Inl NilDereference
      | Some r \<Rightarrow> Inr (r\<lparr>Reply_Signature := signature\<rparr>))"

subsection \<open>Prepare\<close>

text \<open>\<^verbatim>\<open>ReplicaID\<close> reads the field \<^verbatim>\<open>m.Msg\<close> directly, so a nil receiver panics.\<close>

definition Prepare_ReplicaID :: "prepare option \<Rightarrow> 'e panic + uint32" where
  "Prepare_ReplicaID m =
     (case m of
        None \<Rightarrow> Inl NilDereference
      | Some p \<Rightarrow> Inr (Prepare_M_GetReplicaId (Prepare_Msg p)))"

definition Prepare_Payload ::
    "(prepare_m option \<Rightarrow> 'e + bytes) \<Rightarrow> prepare option \<Rightarrow> 'e panic + bytes" where
  "Prepare_Payload marshal m =
     (case marshal (Prepare_GetMsg m) of
        Inl err \<Rightarrow> Inl (PanicError err)
      | Inr mBytes \<Rightarrow> Inr mBytes)"

definition Prepare_UIBytes :: "prepare option \<Rightarrow> bytes" where
  "Prepare_UIBytes m = Prepare_GetReplicaUi m"

definition Prepare_AttachUI :: "prepare option \<Rightarrow> bytes \<Rightarrow> 'e panic + prepare" where
  "Prepare_AttachUI m ui =
     (case m of
        None \<Rightarrow> Inl NilDereference
      | Some p \<Rightarrow> Inr (p\<lparr>Prepare_ReplicaUi := ui\<rparr>))"

subsection \<open>Commit\<close>

definition Commit_ReplicaID :: "commit option \<Rightarrow> 'e panic + uint32" where
  "Commit_ReplicaID m =
     (case m of
        None \<Rightarrow> Inl NilDereference
      | Some c \<Rightarrow> Inr (Commit_M_GetReplicaId (Commit_Msg c)))"

definition Commit_Payload ::
    "(commit_m option \<Rightarrow> 'e + bytes) \<Rightarrow> commit option \<Rightarrow> 'e panic + bytes" where
  "Commit_Payload marshal m =
     (case marshal (Commit_GetMsg m) of
        Inl err \<Rightarrow> Inl (PanicError err)
      | Inr mBytes \<Rightarrow> Inr mBytes)"

definition Commit_UIBytes :: "commit option \<Rightarrow> bytes" where
  "Commit_UIBytes m = Commit_GetReplicaUi m"

definition Commit_AttachUI :: "commit option \<Rightarrow> bytes \<Rightarrow> 'e panic + commit" where
  "Commit_AttachUI m ui =
     (case m of
        None \<Rightarrow> Inl NilDereference
      | Some c \<Rightarrow> Inr (c\<lparr>Commit_ReplicaUi := ui\<rparr>))"

text \<open>
  \<^verbatim>\<open>Prepare\<close> allocates a new Prepare (the result is never nil) and fills it through the
  getters of the Commit's inner message, which tolerate a nil receiver and a nil \<^verbatim>\<open>Msg\<close>.
\<close>

definition Commit_Prepare :: "commit option \<Rightarrow> prepare option" where
  "Commit_Prepare m =
     (let msg = Commit_GetMsg m
      in Some \<lparr>Prepare_Msg = Some \<lparr>Prepare_M_View = Commit_M_GetView msg,
                                    Prepare_M_ReplicaId = Commit_M_GetPrimaryId msg,
                                    Prepare_M_Request = Commit_M_GetRequest msg\<rparr>,
               Prepare_ReplicaUi = Commit_M_GetPrimaryUi msg\<rparr>)"

definition Commit_Request :: "commit option \<Rightarrow> request option" where
  "Commit_Request m = Commit_M_GetRequest (Commit_GetMsg m)"

subsection \<open>The envelope\<close>

definition WrapMessage :: "'o any \<Rightarrow> 'e panic + message option" where
  "WrapMessage m =
     (case m of
        Ptr_Request r \<Rightarrow>
          Inr (Some \<lparr>Message_Type =
                 Ptr_Message_Request (Some \<lparr>Message_Request_Request = r\<rparr>)\<rparr>)
      | Ptr_Reply r \<Rightarrow>
          Inr (Some \<lparr>Message_Type =
                 Ptr_Message_Reply (Some \<lparr>Message_Reply_Reply = r\<rparr>)\<rparr>)
      | Ptr_Prepare p \<Rightarrow>
          Inr (Some \<lparr>Message_Type =
                 Ptr_Message_Prepare (Some \<lparr>Message_Prepare_Prepare = p\<rparr>)\<rparr>)
      | Ptr_Commit c \<Rightarrow>
          Inr (Some \<lparr>Message_Type =
                 Ptr_Message_Commit (Some \<lparr>Message_Commit_Commit = c\<rparr>)\<rparr>)
      | _ \<Rightarrow> Inl (PanicString ''Unknown message type''))"

text \<open>
  \<^verbatim>\<open>UnwrapMessage\<close> reads \<^verbatim>\<open>m.Type\<close> (a nil \<^verbatim>\<open>m\<close> panics) and then the field of the
  wrapper struct (a nil wrapper pointer panics).
\<close>

definition UnwrapMessage :: "message option \<Rightarrow> 'e panic + 'o any" where
  "UnwrapMessage m =
     (case m of
        None \<Rightarrow> Inl NilDereference
      | Some msg \<Rightarrow>
          (case Message_Type msg of
             Ptr_Message_Request t \<Rightarrow>
               (case t of None \<Rightarrow> Inl NilDereference
                | Some w \<Rightarrow> Inr (Ptr_Request (Message_Request_Request w)))
           | Ptr_Message_Reply t \<Rightarrow>
               (case t of None \<Rightarrow> Inl NilDereference
                | Some w \<Rightarrow> Inr (Ptr_Reply (Message_Reply_Reply w)))
           | Ptr_Message_Prepare t \<Rightarrow>
               (case t of None \<Rightarrow> Inl NilDereference
                | Some w \<Rightarrow> Inr (Ptr_Prepare (Message_Prepare_Prepare w)))
           | Ptr_Message_Commit t \<Rightarrow>
               (case t of None \<Rightarrow> Inl NilDereference
                | Some w \<Rightarrow> Inr (Ptr_Commit (Message_Commit_Commit w)))
           | Type_nil \<Rightarrow> Inl (PanicString ''Unknown message type'')))"

text \<open>
  The four concrete message types and the four variants of the envelope, kept as two
  separate enumerations: \<open>dynamic_type\<close> is the dynamic type of an interface value when
  it is one of the four pointer types, \<open>oneof_case\<close> is the variant that an envelope holds.
\<close>

datatype concrete_type = T_Request | T_Reply | T_Prepare | T_Commit

datatype envelope_tag = Tag_Request | Tag_Reply | Tag_Prepare | Tag_Commit

fun dynamic_type :: "'o any \<Rightarrow> concrete_type option" where
  "dynamic_type (Ptr_Request _) = Some T_Request"
| "dynamic_type (Ptr_Reply _) = Some T_Reply"
| "dynamic_type (Ptr_Prepare _) = Some T_Prepare"
| "dynamic_type (Ptr_Commit _) = Some T_Commit"
| "dynamic_type Nil_interface = None"
| "dynamic_type (Other _) = None"

fun oneof_case :: "isMessage_Type \<Rightarrow> envelope_tag option" where
  "oneof_case (Ptr_Message_Request _) = Some Tag_Request"
| "oneof_case (Ptr_Message_Reply _) = Some Tag_Reply"
| "oneof_case (Ptr_Message_Prepare _) = Some Tag_Prepare"
| "oneof_case (Ptr_Message_Commit _) = Some Tag_Commit"
| "oneof_case Type_nil = None"

definition envelope_case :: "message option \<Rightarrow> envelope_tag option" where
  "envelope_case m = (case m of None \<Rightarrow> None | Some msg \<Rightarrow> oneof_case (Message_Type msg))"

fun tag_of_type :: "concrete_type \<Rightarrow> envelope_tag" where
  "tag_of_type T_Request = Tag_Request"
| "tag_of_type T_Reply = Tag_Reply"
| "tag_of_type T_Prepare = Tag_Prepare"
| "tag_of_type T_Commit = Tag_Commit"

section \<open>api.go: the configuration interface\<close>

text \<open>
  \<^verbatim>\<open>Configer\<close> is an interface; an instance is the record of the values its six methods
  return. \<^verbatim>\<open>time.Duration\<close> is a signed 64-bit count of nanoseconds.
\<close>

record configer =
  Configer_N :: uint32
  Configer_F :: uint32
  Configer_CheckpointPeriod :: uint32
  Configer_Logsize :: uint32
  Configer_TimeoutRequest :: "64 word"
  Configer_TimeoutViewChange :: "64 word"

section \<open>The protocol engine behind the interfaces\<close>

subsection \<open>Validation of the configuration\<close>

text \<open>
  Modelled from the spec: the step that reads the configuration when a replica starts is
  not among the source files; api.go only declares the interface, with the comment
  ``L: must be larger than CheckpointPeriod'' on \<^verbatim>\<open>Logsize\<close>. The specification lists
  \<^verbatim>\<open>Logsize()\<close> as ``must exceed CheckpointPeriod'', has the configuration ``consumed
  read-only at startup'' and asks for configuration invariants to be ``validated at
  startup''. \<open>validate_configer\<close> is that check: it hands the configuration on, or
  rejects it. Both values are unsigned 32-bit integers.
\<close>

datatype startup_error = Logsize_not_above_CheckpointPeriod

definition validate_configer :: "configer \<Rightarrow> startup_error + configer" where
  "validate_configer cfg =
     (if Configer_CheckpointPeriod cfg < Configer_Logsize cfg then Inr cfg
      else Inl Logsize_not_above_CheckpointPeriod)"

subsection \<open>Log slots and the commit quorum\<close>

text \<open>
  Modelled from the spec: the request log and the ordering state machine are not among
  the source files. The definitions below follow the specification's words.

  \<^item> A log slot is ``{state: enum, request, prepare, set of Commits received (keyed by
    replicaID, duplicates overwrite), quorum-satisfied flag, execution result}'', and its
    states are ``Empty, Prepared, CommittedLocally, QuorumCommitted, Executed''.
  \<^item> ``quorum = F + 1 distinct Commit-endorsing replicas'', with F supplied by the
    configuration.
  \<^item> A slot goes from CommittedLocally to QuorumCommitted when ``a set of Commits, all
    embedding the same request and primary UI, has been received from a quorum of
    distinct replicas''.
  \<^item> ``Conflicting Commits for the same slot from the same replicaID'': ``the first valid
    one is kept, later conflicting ones are logged and ignored''.

  Whether a Commit is valid (its signature and its UI verify) is decided by the
  authentication collaborator and the tamper-proof component; it is the parameter
  \<open>valid\<close>. Whether the replica's own Commit is among the recorded ones is left open by
  the specification; here a slot counts whatever Commits have been recorded in it.
\<close>

text \<open>
  Modelled from the spec: the states of a slot, in the order of the state machine
  ``Empty, Prepared, CommittedLocally, QuorumCommitted, Executed''.
\<close>

datatype slot_state = Empty | Prepared | CommittedLocally | QuorumCommitted | Executed

text \<open>
  Modelled from the spec: the log slot of one sequence number. The Commits received are
  a list of pairs keyed by the replica id, in the order of arrival.
\<close>

record log_slot =
  Slot_state :: slot_state
  Slot_request :: "request option"
  Slot_prepare :: "prepare option"
  Slot_commits :: "(uint32 \<times> commit) list"
  Slot_quorum_satisfied :: bool
  Slot_result :: bytes

text \<open>
  Modelled from the spec: the reasons for which \<open>recordCommit\<close> refuses a Commit
  (``recordCommit(Commit) -> slot|error'').
\<close>

datatype commit_error = Invalid_Commit | Mismatching_Commit | Conflicting_Commit uint32

text \<open>Modelled from the spec: ``quorum = F + 1'', a natural number.\<close>

definition quorum :: "configer \<Rightarrow> nat" where
  "quorum cfg = unat (Configer_F cfg) + 1"

text \<open>
  Modelled from the spec: the replica that authored a Commit (``replicaID''), read as
  \<^verbatim>\<open>Commit.ReplicaID\<close> reads it.
\<close>

definition commit_author :: "commit \<Rightarrow> uint32" where
  "commit_author c = Commit_M_GetReplicaId (Commit_Msg c)"

text \<open>
  Modelled from the spec: a Commit embeds the slot's request and primary UI when the
  request it carries is the slot's request and the UI of the Prepare it embeds is the UI
  of the slot's Prepare.
\<close>

definition embeds_same :: "log_slot \<Rightarrow> commit \<Rightarrow> bool" where
  "embeds_same s c \<longleftrightarrow>
     Commit_Request (Some c) = Slot_request s
     \<and> Prepare_UIBytes (Commit_Prepare (Some c)) = Prepare_UIBytes (Slot_prepare s)"

text \<open>
  Modelled from the spec: the ``distinct Commit-endorsing replicas'' of a slot, that is
  the replicas with a recorded Commit, each counted once.
\<close>

definition endorsers :: "log_slot \<Rightarrow> uint32 list" where
  "endorsers s = remdups (map fst (Slot_commits s))"

text \<open>
  Modelled from the spec: the transition itself. A slot in CommittedLocally whose
  recorded Commits come from a quorum of distinct replicas becomes QuorumCommitted; any
  other slot is left as it is.
\<close>

definition try_quorum :: "configer \<Rightarrow> log_slot \<Rightarrow> log_slot" where
  "try_quorum cfg s =
     (if Slot_state s = CommittedLocally \<and> quorum cfg \<le> length (endorsers s)
      then s\<lparr>Slot_state := QuorumCommitted, Slot_quorum_satisfied := True\<rparr>
      else s)"

text \<open>
  Modelled from the spec: \<open>recordCommit\<close>. An invalid Commit and a Commit that embeds another request or primary
  UI are refused; a Commit from a replica that already has one recorded changes nothing
  (the same Commit again overwrites itself, a different one is refused and the first is
  kept); otherwise the Commit is recorded under its author and the quorum is looked at.
\<close>

definition recordCommit ::
    "configer \<Rightarrow> (commit \<Rightarrow> bool) \<Rightarrow> commit \<Rightarrow> log_slot \<Rightarrow> commit_error + log_slot" where
  "recordCommit cfg valid c s =
     (if \<not> valid c then Inl Invalid_Commit
      else if \<not> embeds_same s c then Inl Mismatching_Commit
      else (case map_of (Slot_commits s) (commit_author c) of
              Some c0 \<Rightarrow> if c0 = c then Inr s else Inl (Conflicting_Commit (commit_author c))
            | None \<Rightarrow>
                Inr (try_quorum cfg
                       (s\<lparr>Slot_commits := Slot_commits s @ [(commit_author c, c)]\<rparr>))))"

text \<open>
  Modelled from the spec: the Commits of a slot arrive one after another; a refused
  Commit is dropped (``discard the single message, no protocol state change'') and the
  slot stays as it was.
\<close>

definition receiveCommit ::
    "configer \<Rightarrow> (commit \<Rightarrow> bool) \<Rightarrow> commit \<Rightarrow> log_slot \<Rightarrow> log_slot" where
  "receiveCommit cfg valid c s =
     (case recordCommit cfg valid c s of Inl _ \<Rightarrow> s | Inr s' \<Rightarrow> s')"

fun recordCommits ::
    "configer \<Rightarrow> (commit \<Rightarrow> bool) \<Rightarrow> commit list \<Rightarrow> log_slot \<Rightarrow> log_slot" where
  "recordCommits cfg valid [] s = s"
| "recordCommits cfg valid (c # cs) s = recordCommits cfg valid cs (receiveCommit cfg valid c s)"

text \<open>
  Modelled from the spec: a well-formed slot. Every recorded Commit is valid, embeds the slot's request and
  primary UI, and is recorded under its author.
\<close>

definition slot_ok :: "(commit \<Rightarrow> bool) \<Rightarrow> log_slot \<Rightarrow> bool" where
  "slot_ok valid s \<longleftrightarrow>
     list_all (\<lambda>(r, c). valid c \<and> embeds_same s c \<and> r = commit_author c) (Slot_commits s)"

text \<open>
  Modelled from the spec: the distinct authors of the valid Commits among \<open>cs\<close> that embed the slot's request
  and primary UI.
\<close>

definition matching_authors :: "(commit \<Rightarrow> bool) \<Rightarrow> log_slot \<Rightarrow> commit list \<Rightarrow> uint32 set" where
  "matching_authors valid s cs =
     set (map commit_author (filter (\<lambda>c. valid c \<and> embeds_same s c) cs))"

text \<open>
  Modelled from the spec: the invariant of a slot between CommittedLocally and
  QuorumCommitted. It is QuorumCommitted exactly when its recorded Commits come from a
  quorum of replicas.
\<close>

definition quorum_inv :: "configer \<Rightarrow> log_slot \<Rightarrow> bool" where
  "quorum_inv cfg s \<longleftrightarrow>
     (Slot_state s = CommittedLocally \<or> Slot_state s = QuorumCommitted)
     \<and> (Slot_state s = QuorumCommitted \<longleftrightarrow> quorum cfg \<le> card (set (endorsers s)))"

subsection \<open>Scenario 1 of the specification\<close>

text \<open>
  Modelled from the spec: ``N=4, F=1, quorum=2. Primary issues Prepare(view=0,seq=1) for
  Request(client=1, op="X"). Three backups issue Commits; once any 2 valid Commits (from
  distinct replicas, matching request+UI) are seen, slot 1 is QuorumCommitted''. The
  primary is replica 0, the operation is the byte of the letter X, and the signature and
  UI bytes are arbitrary.
\<close>

definition scenario1_cfg :: configer where
  "scenario1_cfg =
     \<lparr>Configer_N = 4, Configer_F = 1, Configer_CheckpointPeriod = 100, Configer_Logsize = 200,
      Configer_TimeoutRequest = 2000000000, Configer_TimeoutViewChange = 3000000000\<rparr>"

definition scenario1_request :: request where
  "scenario1_request =
     \<lparr>Request_Msg = Some \<lparr>Request_M_ClientId = 1, Request_M_Timestamp = 1,
                           Request_M_Operation = Some [88]\<rparr>,
      Request_Signature = Some [1, 2, 3]\<rparr>"

definition scenario1_prepare :: prepare where
  "scenario1_prepare =
     \<lparr>Prepare_Msg = Some \<lparr>Prepare_M_View = 0, Prepare_M_ReplicaId = 0,
                           Prepare_M_Request = Some scenario1_request\<rparr>,
      Prepare_ReplicaUi = Some [7]\<rparr>"

definition scenario1_commit :: "uint32 \<Rightarrow> commit" where
  "scenario1_commit replicaID =
     \<lparr>Commit_Msg = Some \<lparr>Commit_M_View = 0, Commit_M_ReplicaId = replicaID,
                          Commit_M_PrimaryId = 0, Commit_M_Request = Some scenario1_request,
                          Commit_M_PrimaryUi = Some [7]\<rparr>,
      Commit_ReplicaUi = Some [9]\<rparr>"

definition scenario1_slot :: log_slot where
  "scenario1_slot =
     \<lparr>Slot_state = CommittedLocally, Slot_request = Some scenario1_request,
      Slot_prepare = Some scenario1_prepare, Slot_commits = [],
      Slot_quorum_satisfied = False, Slot_result = None\<rparr>"

section \<open>Properties of messages.go\<close>

lemmas getters =
  Request_GetMsg_def Request_GetSignature_def Request_M_GetClientId_def
  Reply_GetMsg_def Reply_GetSignature_def
  Prepare_GetMsg_def Prepare_GetReplicaUi_def Prepare_M_GetView_def
  Prepare_M_GetReplicaId_def Prepare_M_GetRequest_def
  Commit_GetMsg_def Commit_GetReplicaUi_def Commit_M_GetView_def
  Commit_M_GetReplicaId_def Commit_M_GetPrimaryId_def Commit_M_GetRequest_def
  Commit_M_GetPrimaryUi_def

subsection \<open>Nil receivers\<close>

text \<open>
  The methods that touch a field of the receiver directly panic on a nil receiver; the
  ones that go through the generated getters return the zero value.
\<close>

lemma nil_receiver_panics:
  "Request_AttachSignature None s = Inl NilDereference"
  "Reply_AttachSignature None s = Inl NilDereference"
  "Prepare_AttachUI None u = Inl NilDereference"
  "Commit_AttachUI None u = Inl NilDereference"
  "Prepare_ReplicaID None = Inl NilDereference"
  "Commit_ReplicaID None = Inl NilDereference"
  "UnwrapMessage None = Inl NilDereference"
  by (simp_all add: Request_AttachSignature_def Reply_AttachSignature_def
      Prepare_AttachUI_def Commit_AttachUI_def Prepare_ReplicaID_def Commit_ReplicaID_def
      UnwrapMessage_def)

lemma nil_receiver_zero:
  "Request_ClientID None = 0"
  "Request_SignatureBytes None = None"
  "Reply_SignatureBytes None = None"
  "Prepare_UIBytes None = None"
  "Commit_UIBytes None = None"
  "Commit_Request None = None"
  by (simp_all add: Request_ClientID_def Request_SignatureBytes_def Reply_SignatureBytes_def
      Prepare_UIBytes_def Commit_UIBytes_def Commit_Request_def getters)

subsection \<open>The envelope\<close>

lemma bij_tag_of_type: "bij tag_of_type"
proof (rule bijI)
  show "inj tag_of_type"
  proof (rule injI)
    fix x y
    assume "tag_of_type x = tag_of_type y"
    then show "x = y" by (cases x; cases y) simp_all
  qed
  show "surj tag_of_type"
  proof (rule surjI)
    fix t
    show "tag_of_type (case t of Tag_Request \<Rightarrow> T_Request | Tag_Reply \<Rightarrow> T_Reply
                        | Tag_Prepare \<Rightarrow> T_Prepare | Tag_Commit \<Rightarrow> T_Commit) = t"
      by (cases t) simp_all
  qed
qed

text \<open>
  C2. Let \<open>m\<close> be an interface value whose dynamic type \<open>t\<close> is one of \<^verbatim>\<open>*Request\<close>,
  \<^verbatim>\<open>*Reply\<close>, \<^verbatim>\<open>*Prepare\<close>, \<^verbatim>\<open>*Commit\<close> (the pointer itself may be nil). Then
  \<^verbatim>\<open>WrapMessage(m)\<close> returns an envelope \<open>e\<close>, \<^verbatim>\<open>UnwrapMessage(e)\<close> returns \<open>m\<close> itself, and
  the variant held by \<open>e\<close> is the one that belongs to \<open>t\<close>, where the assignment
  \<open>tag_of_type\<close> of variants to concrete types is one-to-one and onto.
\<close>

theorem WrapMessage_UnwrapMessage:
  fixes m :: "'o any"
  assumes "dynamic_type m = Some t"
  shows "(\<exists>e. (WrapMessage m :: 'e panic + message option) = Inr e
            \<and> (UnwrapMessage e :: 'e panic + 'o any) = Inr m
            \<and> envelope_case e = Some (tag_of_type t))
         \<and> bij tag_of_type"
  using assms bij_tag_of_type
  by (cases m) (auto simp: WrapMessage_def UnwrapMessage_def envelope_case_def)

theorem WrapMessage_UnwrapMessage_witness:
  "dynamic_type
     (Ptr_Prepare (Some \<lparr>Prepare_Msg = Some \<lparr>Prepare_M_View = 0, Prepare_M_ReplicaId = 0,
                                               Prepare_M_Request = None\<rparr>,
                          Prepare_ReplicaUi = Some [7]\<rparr>) :: unit any) = Some T_Prepare
   \<and> (\<exists>e. (WrapMessage
              (Ptr_Prepare (Some \<lparr>Prepare_Msg = Some \<lparr>Prepare_M_View = 0,
                                     Prepare_M_ReplicaId = 0, Prepare_M_Request = None\<rparr>,
                                   Prepare_ReplicaUi = Some [7]\<rparr>) :: unit any)
              :: unit panic + message option) = Inr e
         \<and> (UnwrapMessage e :: unit panic + unit any)
             = Inr (Ptr_Prepare (Some \<lparr>Prepare_Msg = Some \<lparr>Prepare_M_View = 0,
                                          Prepare_M_ReplicaId = 0, Prepare_M_Request = None\<rparr>,
                                        Prepare_ReplicaUi = Some [7]\<rparr>))
         \<and> envelope_case e = Some Tag_Prepare)"
  using WrapMessage_UnwrapMessage
    [where 'o = unit and 'e = unit and t = T_Prepare and
       m = "Ptr_Prepare (Some \<lparr>Prepare_Msg = Some \<lparr>Prepare_M_View = 0,
                                  Prepare_M_ReplicaId = 0, Prepare_M_Request = None\<rparr>,
                                Prepare_ReplicaUi = Some [7]\<rparr>)"]
  by simp

text \<open>
  C3. An interface value whose dynamic type is none of the four pointer types (the nil
  interface or a value of any other type) makes \<^verbatim>\<open>WrapMessage\<close> panic with
  ``Unknown message type'', and no envelope is returned. An envelope whose \<^verbatim>\<open>Type\<close> holds
  none of the four variants makes \<^verbatim>\<open>UnwrapMessage\<close> panic with the same message, and no
  value is returned.
\<close>

theorem unknown_variant_panics:
  "(dynamic_type m = None \<longrightarrow>
      WrapMessage m = Inl (PanicString ''Unknown message type''))
   \<and> (oneof_case (Message_Type e) = None \<longrightarrow>
      UnwrapMessage (Some e) = Inl (PanicString ''Unknown message type''))"
  by (cases m; cases "Message_Type e") (simp_all add: WrapMessage_def UnwrapMessage_def)

theorem unknown_variant_panics_witness:
  "dynamic_type (Other \<lparr>Request_Msg = None, Request_Signature = None\<rparr>) = None
   \<and> (WrapMessage (Other \<lparr>Request_Msg = None, Request_Signature = None\<rparr>)
        :: unit panic + message option) = Inl (PanicString ''Unknown message type'')
   \<and> dynamic_type (Nil_interface :: unit any) = None
   \<and> (WrapMessage (Nil_interface :: unit any) :: unit panic + message option)
        = Inl (PanicString ''Unknown message type'')
   \<and> oneof_case (Message_Type \<lparr>Message_Type = Type_nil\<rparr>) = None
   \<and> (UnwrapMessage (Some \<lparr>Message_Type = Type_nil\<rparr>) :: unit panic + unit any)
        = Inl (PanicString ''Unknown message type'')"
  using unknown_variant_panics
    [where 'a = request and 'b = unit and 'c = unit and 'd = unit and
       m = "Other \<lparr>Request_Msg = None, Request_Signature = None\<rparr>" and
       e = "\<lparr>Message_Type = Type_nil\<rparr>"]
    unknown_variant_panics
    [where 'a = unit and 'b = unit and 'c = unit and 'd = unit and
       m = "Nil_interface" and e = "\<lparr>Message_Type = Type_nil\<rparr>"]
  by simp

subsection \<open>Prepare and Commit\<close>

lemma Commit_Prepare_eq:
  "Commit_Prepare m =
     Some \<lparr>Prepare_Msg = Some \<lparr>Prepare_M_View = Commit_M_GetView (Commit_GetMsg m),
                                 Prepare_M_ReplicaId = Commit_M_GetPrimaryId (Commit_GetMsg m),
                                 Prepare_M_Request = Commit_M_GetRequest (Commit_GetMsg m)\<rparr>,
            Prepare_ReplicaUi = Commit_M_GetPrimaryUi (Commit_GetMsg m)\<rparr>"
  by (simp add: Commit_Prepare_def Let_def)

text \<open>
  C4. For every Commit \<open>c\<close> (a nil pointer and a Commit without inner message included),
  \<^verbatim>\<open>c.Prepare()\<close> is a Prepare with an inner message whose view is \<open>c\<close>'s view, whose
  replica id is \<open>c\<close>'s primary id, whose request is the request embedded in \<open>c\<close>, and
  whose UI is \<open>c\<close>'s primary UI; \<^verbatim>\<open>c.Request()\<close> is that same request. For a Commit
  with all fields given, the Prepare is rebuilt from them field by field, and neither the
  Commit's own replica id nor its own UI enters it.
\<close>

theorem Commit_Prepare_content:
  "Commit_Prepare c \<noteq> None
   \<and> Prepare_GetMsg (Commit_Prepare c) \<noteq> None
   \<and> Prepare_M_GetView (Prepare_GetMsg (Commit_Prepare c)) = Commit_M_GetView (Commit_GetMsg c)
   \<and> Prepare_M_GetReplicaId (Prepare_GetMsg (Commit_Prepare c))
       = Commit_M_GetPrimaryId (Commit_GetMsg c)
   \<and> Prepare_M_GetRequest (Prepare_GetMsg (Commit_Prepare c))
       = Commit_M_GetRequest (Commit_GetMsg c)
   \<and> Prepare_UIBytes (Commit_Prepare c) = Commit_M_GetPrimaryUi (Commit_GetMsg c)
   \<and> Commit_Request c = Prepare_M_GetRequest (Prepare_GetMsg (Commit_Prepare c))
   \<and> Commit_Prepare
        (Some \<lparr>Commit_Msg = Some \<lparr>Commit_M_View = view, Commit_M_ReplicaId = replicaID,
                                   Commit_M_PrimaryId = primaryID, Commit_M_Request = req,
                                   Commit_M_PrimaryUi = primaryUI\<rparr>,
               Commit_ReplicaUi = replicaUI\<rparr>)
       = Some \<lparr>Prepare_Msg = Some \<lparr>Prepare_M_View = view, Prepare_M_ReplicaId = primaryID,
                                     Prepare_M_Request = req\<rparr>,
                Prepare_ReplicaUi = primaryUI\<rparr>
   \<and> Commit_Request
        (Some \<lparr>Commit_Msg = Some \<lparr>Commit_M_View = view, Commit_M_ReplicaId = replicaID,
                                   Commit_M_PrimaryId = primaryID, Commit_M_Request = req,
                                   Commit_M_PrimaryUi = primaryUI\<rparr>,
               Commit_ReplicaUi = replicaUI\<rparr>)
       = req"
  by (simp add: Commit_Prepare_eq Commit_Request_def Prepare_UIBytes_def getters)

text \<open>
  C5. For a Prepare with view, primary id, request and primary UI, \<^verbatim>\<open>ReplicaID()\<close> returns
  the primary id and \<^verbatim>\<open>UIBytes()\<close> the primary UI; \<^verbatim>\<open>Payload()\<close> is what the serializer
  makes of the inner message alone (it panics with the serializer's error when there is
  one) and does not change with the attached UI. In general \<^verbatim>\<open>ReplicaID()\<close> is the
  replica id of the inner message (zero when there is none) and \<^verbatim>\<open>UIBytes()\<close> is the
  \<^verbatim>\<open>ReplicaUi\<close> field; on the Prepare taken out of a Commit they are the Commit's primary id
  and primary UI.
\<close>

theorem Prepare_accessors:
  "Prepare_ReplicaID
       (Some \<lparr>Prepare_Msg = Some \<lparr>Prepare_M_View = view, Prepare_M_ReplicaId = primaryID,
                                    Prepare_M_Request = req\<rparr>,
               Prepare_ReplicaUi = primaryUI\<rparr>) = Inr primaryID
   \<and> Prepare_UIBytes
       (Some \<lparr>Prepare_Msg = Some \<lparr>Prepare_M_View = view, Prepare_M_ReplicaId = primaryID,
                                    Prepare_M_Request = req\<rparr>,
               Prepare_ReplicaUi = primaryUI\<rparr>) = primaryUI
   \<and> Prepare_Payload marshal
       (Some \<lparr>Prepare_Msg = Some \<lparr>Prepare_M_View = view, Prepare_M_ReplicaId = primaryID,
                                    Prepare_M_Request = req\<rparr>,
               Prepare_ReplicaUi = primaryUI\<rparr>)
     = (case marshal (Some \<lparr>Prepare_M_View = view, Prepare_M_ReplicaId = primaryID,
                             Prepare_M_Request = req\<rparr>) of
          Inl err \<Rightarrow> Inl (PanicError err) | Inr mBytes \<Rightarrow> Inr mBytes)
   \<and> Prepare_ReplicaID (Some p) = Inr (Prepare_M_GetReplicaId (Prepare_Msg p))
   \<and> Prepare_UIBytes (Some p) = Prepare_ReplicaUi p
   \<and> Prepare_Payload marshal (Some (p\<lparr>Prepare_ReplicaUi := ui\<rparr>))
       = Prepare_Payload marshal (Some p)
   \<and> Prepare_ReplicaID (Commit_Prepare c) = Inr (Commit_M_GetPrimaryId (Commit_GetMsg c))
   \<and> Prepare_UIBytes (Commit_Prepare c) = Commit_M_GetPrimaryUi (Commit_GetMsg c)"
  by (simp add: Prepare_ReplicaID_def Prepare_UIBytes_def Prepare_Payload_def
      Commit_Prepare_eq getters)

text \<open>
  C6. For a Commit with view, replica id, primary id, request, primary UI and replica UI,
  \<^verbatim>\<open>ReplicaID()\<close> returns the replica id, not the primary id, and \<^verbatim>\<open>UIBytes()\<close> returns the
  replica UI, not the primary UI. In general \<^verbatim>\<open>ReplicaID()\<close> is the replica id of the
  inner message (zero when there is none) and \<^verbatim>\<open>UIBytes()\<close> is the \<^verbatim>\<open>ReplicaUi\<close> field.
\<close>

theorem Commit_accessors:
  "Commit_ReplicaID
       (Some \<lparr>Commit_Msg = Some \<lparr>Commit_M_View = view, Commit_M_ReplicaId = replicaID,
                                   Commit_M_PrimaryId = primaryID, Commit_M_Request = req,
                                   Commit_M_PrimaryUi = primaryUI\<rparr>,
               Commit_ReplicaUi = replicaUI\<rparr>) = Inr replicaID
   \<and> Commit_UIBytes
       (Some \<lparr>Commit_Msg = Some \<lparr>Commit_M_View = view, Commit_M_ReplicaId = replicaID,
                                   Commit_M_PrimaryId = primaryID, Commit_M_Request = req,
                                   Commit_M_PrimaryUi = primaryUI\<rparr>,
               Commit_ReplicaUi = replicaUI\<rparr>) = replicaUI
   \<and> Commit_ReplicaID (Some c) = Inr (Commit_M_GetReplicaId (Commit_Msg c))
   \<and> Commit_UIBytes (Some c) = Commit_ReplicaUi c"
  by (simp add: Commit_ReplicaID_def Commit_UIBytes_def getters)

subsection \<open>Attaching a signature or a UI\<close>

text \<open>
  C9. On a Request or a Reply, \<^verbatim>\<open>AttachSignature(s)\<close> returns normally and
  \<^verbatim>\<open>SignatureBytes()\<close> then returns \<open>s\<close>; on a Prepare or a Commit, \<^verbatim>\<open>AttachUI(u)\<close> returns
  normally and \<^verbatim>\<open>UIBytes()\<close> then returns \<open>u\<close>. The byte string may be nil.
\<close>

theorem attach_then_read:
  "(\<exists>r'. Request_AttachSignature (Some rq) s = Inr r' \<and> Request_SignatureBytes (Some r') = s)
   \<and> (\<exists>r'. Reply_AttachSignature (Some rp) s = Inr r' \<and> Reply_SignatureBytes (Some r') = s)
   \<and> (\<exists>p'. Prepare_AttachUI (Some p) u = Inr p' \<and> Prepare_UIBytes (Some p') = u)
   \<and> (\<exists>c'. Commit_AttachUI (Some c) u = Inr c' \<and> Commit_UIBytes (Some c') = u)"
  by (simp add: Request_AttachSignature_def Request_SignatureBytes_def
      Reply_AttachSignature_def Reply_SignatureBytes_def
      Prepare_AttachUI_def Prepare_UIBytes_def
      Commit_AttachUI_def Commit_UIBytes_def getters)

text \<open>
  C10. \<^verbatim>\<open>AttachSignature\<close> and \<^verbatim>\<open>AttachUI\<close> leave the inner message as it is, so
  \<^verbatim>\<open>Payload()\<close> gives the same result before and after (the same bytes, or the same
  panic), whatever the serializer; \<^verbatim>\<open>ClientID()\<close> of a Request and \<^verbatim>\<open>ReplicaID()\<close> of a
  Prepare or Commit are unchanged as well.
\<close>

theorem attach_frame:
  "(\<exists>r'. Request_AttachSignature (Some rq) s = Inr r'
        \<and> Request_Msg r' = Request_Msg rq
        \<and> Request_Payload mrq (Some r') = Request_Payload mrq (Some rq)
        \<and> Request_ClientID (Some r') = Request_ClientID (Some rq))
   \<and> (\<exists>r'. Reply_AttachSignature (Some rp) s = Inr r'
        \<and> Reply_Msg r' = Reply_Msg rp
        \<and> Reply_Payload mrp (Some r') = Reply_Payload mrp (Some rp))
   \<and> (\<exists>p'. Prepare_AttachUI (Some p) u = Inr p'
        \<and> Prepare_Msg p' = Prepare_Msg p
        \<and> Prepare_Payload mp (Some p') = Prepare_Payload mp (Some p)
        \<and> Prepare_ReplicaID (Some p') = Prepare_ReplicaID (Some p))
   \<and> (\<exists>c'. Commit_AttachUI (Some c) u = Inr c'
        \<and> Commit_Msg c' = Commit_Msg c
        \<and> Commit_Payload mc (Some c') = Commit_Payload mc (Some c)
        \<and> Commit_ReplicaID (Some c') = Commit_ReplicaID (Some c))"
  by (simp add: Request_AttachSignature_def Request_Payload_def Request_ClientID_def
      Reply_AttachSignature_def Reply_Payload_def
      Prepare_AttachUI_def Prepare_Payload_def Prepare_ReplicaID_def
      Commit_AttachUI_def Commit_Payload_def Commit_ReplicaID_def getters)

section \<open>Properties of the configuration check\<close>

text \<open>
  C8. The check at start-up hands a configuration on exactly when its \<^verbatim>\<open>Logsize()\<close> is
  strictly greater than its \<^verbatim>\<open>CheckpointPeriod()\<close> as unsigned numbers; a configuration
  that is handed on is the one that was given and satisfies the inequality, and every
  other configuration is rejected with an error.
\<close>

theorem validate_configer_Logsize:
  "((\<exists>cfg'. validate_configer cfg = Inr cfg')
      \<longleftrightarrow> unat (Configer_CheckpointPeriod cfg) < unat (Configer_Logsize cfg))
   \<and> (validate_configer cfg = Inr cfg' \<longrightarrow>
        cfg' = cfg \<and> unat (Configer_CheckpointPeriod cfg') < unat (Configer_Logsize cfg'))
   \<and> (\<not> unat (Configer_CheckpointPeriod cfg) < unat (Configer_Logsize cfg) \<longrightarrow>
        validate_configer cfg = Inl Logsize_not_above_CheckpointPeriod)"
  by (auto simp: validate_configer_def word_less_nat_alt)

theorem validate_configer_Logsize_witness:
  "validate_configer
       \<lparr>Configer_N = 4, Configer_F = 1, Configer_CheckpointPeriod = 100,
        Configer_Logsize = 200, Configer_TimeoutRequest = 2000000000,
        Configer_TimeoutViewChange = 3000000000\<rparr>
     = Inr \<lparr>Configer_N = 4, Configer_F = 1, Configer_CheckpointPeriod = 100,
            Configer_Logsize = 200, Configer_TimeoutRequest = 2000000000,
            Configer_TimeoutViewChange = 3000000000\<rparr>
   \<and> unat (100 :: uint32) < unat (200 :: uint32)
   \<and> \<not> unat (100 :: uint32) < unat (100 :: uint32)
   \<and> validate_configer
       \<lparr>Configer_N = 4, Configer_F = 1, Configer_CheckpointPeriod = 100,
        Configer_Logsize = 100, Configer_TimeoutRequest = 2000000000,
        Configer_TimeoutViewChange = 3000000000\<rparr>
     = Inl Logsize_not_above_CheckpointPeriod"
  using validate_configer_Logsize
    [of "\<lparr>Configer_N = 4, Configer_F = 1, Configer_CheckpointPeriod = 100,
          Configer_Logsize = 200, Configer_TimeoutRequest = 2000000000,
          Configer_TimeoutViewChange = 3000000000\<rparr>"
        "\<lparr>Configer_N = 4, Configer_F = 1, Configer_CheckpointPeriod = 100,
          Configer_Logsize = 200, Configer_TimeoutRequest = 2000000000,
          Configer_TimeoutViewChange = 3000000000\<rparr>"]
    validate_configer_Logsize
    [of "\<lparr>Configer_N = 4, Configer_F = 1, Configer_CheckpointPeriod = 100,
          Configer_Logsize = 100, Configer_TimeoutRequest = 2000000000,
          Configer_TimeoutViewChange = 3000000000\<rparr>"]
  by (simp add: validate_configer_def)

section \<open>Properties of the commit quorum\<close>

lemma try_quorum_fields:
  "Slot_request (try_quorum cfg s) = Slot_request s"
  "Slot_prepare (try_quorum cfg s) = Slot_prepare s"
  "Slot_commits (try_quorum cfg s) = Slot_commits s"
  by (simp_all add: try_quorum_def)

lemma endorsers_try_quorum: "endorsers (try_quorum cfg s) = endorsers s"
  by (simp add: endorsers_def try_quorum_fields)

lemma set_endorsers: "set (endorsers s) = fst ` set (Slot_commits s)"
  by (simp add: endorsers_def)

lemma length_endorsers: "length (endorsers s) = card (set (endorsers s))"
  by (simp add: endorsers_def length_remdups_card_conv)

lemma try_quorum_state:
  "Slot_state s = CommittedLocally \<Longrightarrow>
   Slot_state (try_quorum cfg s) =
     (if quorum cfg \<le> length (endorsers s) then QuorumCommitted else CommittedLocally)"
  by (simp add: try_quorum_def)

lemma quorum_inv_try_quorum:
  "Slot_state s = CommittedLocally \<Longrightarrow> quorum_inv cfg (try_quorum cfg s)"
  by (simp add: quorum_inv_def try_quorum_state endorsers_try_quorum length_endorsers)

text \<open>The three ways in which \<open>recordCommit\<close> ends.\<close>

lemma recordCommit_cases:
  obtains (refused) e where "recordCommit cfg valid c s = Inl e"
      "\<not> (valid c \<and> embeds_same s c) \<or> commit_author c \<in> set (endorsers s)"
  | (again) "recordCommit cfg valid c s = Inr s" "valid c" "embeds_same s c"
      "commit_author c \<in> set (endorsers s)"
  | (recorded) "recordCommit cfg valid c s =
        Inr (try_quorum cfg (s\<lparr>Slot_commits := Slot_commits s @ [(commit_author c, c)]\<rparr>))"
      "valid c" "embeds_same s c" "commit_author c \<notin> set (endorsers s)"
proof (cases "valid c \<and> embeds_same s c")
  case False
  then have "\<exists>e. recordCommit cfg valid c s = Inl e"
    by (auto simp: recordCommit_def)
  with False refused show ?thesis by blast
next
  case True
  show ?thesis
  proof (cases "map_of (Slot_commits s) (commit_author c)")
    case None
    then have "commit_author c \<notin> set (endorsers s)"
      by (simp add: endorsers_def map_of_eq_None_iff)
    moreover from None True have "recordCommit cfg valid c s =
        Inr (try_quorum cfg (s\<lparr>Slot_commits := Slot_commits s @ [(commit_author c, c)]\<rparr>))"
      by (simp add: recordCommit_def)
    ultimately show ?thesis using True recorded by blast
  next
    case (Some c0)
    then have mem: "commit_author c \<in> set (endorsers s)"
      by (auto simp: endorsers_def dest: map_of_SomeD intro: rev_image_eqI)
    show ?thesis
    proof (cases "c0 = c")
      case True
      with Some \<open>valid c \<and> embeds_same s c\<close> have "recordCommit cfg valid c s = Inr s"
        by (simp add: recordCommit_def)
      with mem \<open>valid c \<and> embeds_same s c\<close> again show ?thesis by blast
    next
      case False
      with Some \<open>valid c \<and> embeds_same s c\<close>
      have "recordCommit cfg valid c s = Inl (Conflicting_Commit (commit_author c))"
        by (simp add: recordCommit_def)
      with mem refused show ?thesis by blast
    qed
  qed
qed

lemma receiveCommit_fields:
  "Slot_request (receiveCommit cfg valid c s) = Slot_request s"
  "Slot_prepare (receiveCommit cfg valid c s) = Slot_prepare s"
  by (cases rule: recordCommit_cases [of cfg valid c s];
      simp add: receiveCommit_def try_quorum_fields)+

lemma receiveCommit_endorsers:
  "set (endorsers (receiveCommit cfg valid c s)) =
     set (endorsers s) \<union> (if valid c \<and> embeds_same s c then {commit_author c} else {})"
  by (cases rule: recordCommit_cases [of cfg valid c s])
     (auto simp: receiveCommit_def set_endorsers try_quorum_fields)

lemma receiveCommit_slot_ok:
  "slot_ok valid s \<Longrightarrow> slot_ok valid (receiveCommit cfg valid c s)"
  by (cases rule: recordCommit_cases [of cfg valid c s])
     (auto simp: receiveCommit_def slot_ok_def try_quorum_fields list_all_iff embeds_same_def)

lemma receiveCommit_quorum_inv:
  assumes "quorum_inv cfg s"
  shows "quorum_inv cfg (receiveCommit cfg valid c s)"
proof (cases rule: recordCommit_cases [of cfg valid c s])
  case (refused e)
  with assms show ?thesis by (simp add: receiveCommit_def)
next
  case again
  with assms show ?thesis by (simp add: receiveCommit_def)
next
  case recorded
  let ?s1 = "s\<lparr>Slot_commits := Slot_commits s @ [(commit_author c, c)]\<rparr>"
  have st: "receiveCommit cfg valid c s = try_quorum cfg ?s1"
    using recorded(1) by (simp add: receiveCommit_def)
  have mono: "card (set (endorsers s)) \<le> card (set (endorsers ?s1))"
    by (rule card_mono) (auto simp: set_endorsers)
  show ?thesis
  proof (cases "Slot_state s = QuorumCommitted")
    case True
    with assms mono show ?thesis
      by (simp add: st quorum_inv_def try_quorum_def)
  next
    case False
    with assms have "Slot_state ?s1 = CommittedLocally"
      by (simp add: quorum_inv_def)
    then show ?thesis unfolding st by (rule quorum_inv_try_quorum)
  qed
qed

text \<open>
  The step that takes a slot from CommittedLocally to QuorumCommitted is the one at
  which the number of distinct endorsing replicas reaches \<open>F + 1\<close>.
\<close>

lemma quorum_reached_at_threshold:
  assumes "quorum_inv cfg s" and "Slot_state s = CommittedLocally"
    and "Slot_state (receiveCommit cfg valid c s) = QuorumCommitted"
  shows "card (set (endorsers (receiveCommit cfg valid c s))) = unat (Configer_F cfg) + 1"
proof -
  from assms(1,2) have below: "card (set (endorsers s)) < quorum cfg"
    by (auto simp: quorum_inv_def)
  have "quorum_inv cfg (receiveCommit cfg valid c s)"
    using assms(1) by (rule receiveCommit_quorum_inv)
  with assms(3) have above: "quorum cfg \<le> card (set (endorsers (receiveCommit cfg valid c s)))"
    by (simp add: quorum_inv_def)
  have "card (set (endorsers (receiveCommit cfg valid c s))) \<le> Suc (card (set (endorsers s)))"
    by (simp add: receiveCommit_endorsers card_insert_if)
  with below above show ?thesis by (simp add: quorum_def)
qed

lemma recordCommits_quorum_inv:
  "quorum_inv cfg s \<Longrightarrow> quorum_inv cfg (recordCommits cfg valid cs s)"
  by (induction cs arbitrary: s) (simp_all add: receiveCommit_quorum_inv)

lemma recordCommits_slot_ok:
  "slot_ok valid s \<Longrightarrow> slot_ok valid (recordCommits cfg valid cs s)"
  by (induction cs arbitrary: s) (simp_all add: receiveCommit_slot_ok)

lemma matching_authors_Cons:
  "matching_authors valid s (c # cs) =
     (if valid c \<and> embeds_same s c then {commit_author c} else {}) \<union> matching_authors valid s cs"
  by (simp add: matching_authors_def)

lemma matching_authors_cong:
  "Slot_request s' = Slot_request s \<Longrightarrow> Slot_prepare s' = Slot_prepare s \<Longrightarrow>
   matching_authors valid s' cs = matching_authors valid s cs"
  by (simp add: matching_authors_def embeds_same_def)

lemma recordCommits_endorsers:
  "set (endorsers (recordCommits cfg valid cs s)) =
     set (endorsers s) \<union> matching_authors valid s cs"
proof (induction cs arbitrary: s)
  case Nil
  show ?case by (simp add: matching_authors_def)
next
  case (Cons c cs)
  have "set (endorsers (recordCommits cfg valid (c # cs) s)) =
        set (endorsers (receiveCommit cfg valid c s))
          \<union> matching_authors valid (receiveCommit cfg valid c s) cs"
    using Cons.IH [of "receiveCommit cfg valid c s"] by simp
  also have "matching_authors valid (receiveCommit cfg valid c s) cs = matching_authors valid s cs"
    by (rule matching_authors_cong) (simp_all add: receiveCommit_fields)
  finally show ?case
    by (simp add: receiveCommit_endorsers matching_authors_Cons Un_assoc)
qed

text \<open>
  C7. Take a slot in CommittedLocally whose recorded Commits are valid and embed the
  slot's request and primary UI, look at the quorum, and then receive any sequence of
  Commits. The slot is QuorumCommitted exactly when the replicas that have a Commit
  recorded, together with the authors of the valid received Commits that embed the
  slot's request and primary UI, are at least \<open>F + 1\<close> distinct replicas, \<open>F\<close> being
  the configuration's \<^verbatim>\<open>F()\<close>; otherwise it is still CommittedLocally. The Commits
  recorded at the end are again valid and embed the slot's request and primary UI, and
  their authors are exactly those replicas.
\<close>

theorem quorum_transition:
  assumes "Slot_state s = CommittedLocally" and "slot_ok valid s"
  shows "slot_ok valid (recordCommits cfg valid cs (try_quorum cfg s))
    \<and> set (endorsers (recordCommits cfg valid cs (try_quorum cfg s)))
        = set (endorsers s) \<union> matching_authors valid s cs
    \<and> (Slot_state (recordCommits cfg valid cs (try_quorum cfg s)) = QuorumCommitted
         \<longleftrightarrow> unat (Configer_F cfg) + 1
               \<le> card (set (endorsers s) \<union> matching_authors valid s cs))
    \<and> (Slot_state (recordCommits cfg valid cs (try_quorum cfg s)) \<noteq> QuorumCommitted
         \<longrightarrow> Slot_state (recordCommits cfg valid cs (try_quorum cfg s)) = CommittedLocally)"
proof -
  let ?s' = "recordCommits cfg valid cs (try_quorum cfg s)"
  have ok: "slot_ok valid (try_quorum cfg s)"
    using assms(2) by (simp add: slot_ok_def try_quorum_fields embeds_same_def)
  have inv: "quorum_inv cfg ?s'"
    using assms(1) by (intro recordCommits_quorum_inv quorum_inv_try_quorum)
  have e: "set (endorsers ?s') = set (endorsers s) \<union> matching_authors valid s cs"
    by (simp add: recordCommits_endorsers endorsers_try_quorum
        matching_authors_cong [of "try_quorum cfg s" s] try_quorum_fields)
  from inv e show ?thesis
    using recordCommits_slot_ok [OF ok]
    by (auto simp: quorum_inv_def quorum_def)
qed

theorem quorum_transition_witness:
  "Slot_state scenario1_slot = CommittedLocally
   \<and> slot_ok (\<lambda>_. True) scenario1_slot
   \<and> Slot_state (recordCommits scenario1_cfg (\<lambda>_. True)
                   [scenario1_commit 1, scenario1_commit 2]
                   (try_quorum scenario1_cfg scenario1_slot)) = QuorumCommitted
   \<and> unat (Configer_F scenario1_cfg) + 1
       \<le> card (set (endorsers scenario1_slot)
               \<union> matching_authors (\<lambda>_. True) scenario1_slot
                   [scenario1_commit 1, scenario1_commit 2])
   \<and> Slot_state (recordCommits scenario1_cfg (\<lambda>_. True)
                   [scenario1_commit 1, scenario1_commit 1]
                   (try_quorum scenario1_cfg scenario1_slot)) = CommittedLocally
   \<and> \<not> unat (Configer_F scenario1_cfg) + 1
       \<le> card (set (endorsers scenario1_slot)
               \<union> matching_authors (\<lambda>_. True) scenario1_slot
                   [scenario1_commit 1, scenario1_commit 1])"
proof -
  have st: "Slot_state scenario1_slot = CommittedLocally"
    by (simp add: scenario1_slot_def)
  have ok: "slot_ok (\<lambda>_. True) scenario1_slot"
    by (simp add: slot_ok_def scenario1_slot_def)
  have two: "Slot_state (recordCommits scenario1_cfg (\<lambda>_. True)
                [scenario1_commit 1, scenario1_commit 2]
                (try_quorum scenario1_cfg scenario1_slot)) = QuorumCommitted"
    by (simp add: scenario1_slot_def scenario1_cfg_def scenario1_commit_def
        scenario1_prepare_def try_quorum_def quorum_def endorsers_def receiveCommit_def
        recordCommit_def embeds_same_def commit_author_def Commit_Request_def
        Commit_Prepare_eq Prepare_UIBytes_def getters)
  have one: "Slot_state (recordCommits scenario1_cfg (\<lambda>_. True)
                [scenario1_commit 1, scenario1_commit 1]
                (try_quorum scenario1_cfg scenario1_slot)) = CommittedLocally"
    by (simp add: scenario1_slot_def scenario1_cfg_def scenario1_commit_def
        scenario1_prepare_def try_quorum_def quorum_def endorsers_def receiveCommit_def
        recordCommit_def embeds_same_def commit_author_def Commit_Request_def
        Commit_Prepare_eq Prepare_UIBytes_def getters)
  from quorum_transition [OF st ok, of scenario1_cfg "[scenario1_commit 1, scenario1_commit 2]"]
    quorum_transition [OF st ok, of scenario1_cfg "[scenario1_commit 1, scenario1_commit 1]"]
    st ok two one
  show ?thesis by simp
qed

end
